theory Spec2Isabelle
  imports Main
begin

section \<open>JavaScript values\<close>

text \<open>
  The store of \<^verbatim>\<open>src/index.js\<close> (the current version, lines 164 to 346) works on
  plain JavaScript values. An object is the list of its own enumerable string-keyed
  properties in enumeration order, the order \<^verbatim>\<open>for (let key in obj)\<close> visits them.
  A function value carries a payload of type \<open>'f\<close>: nothing for a function that sits in
  \<^verbatim>\<open>data\<close>, the mutation or the action itself in the two other groups.
  \<open>Builtin n\<close> is the property \<open>n\<close> that every plain object inherits from
  \<^verbatim>\<open>Object.prototype\<close>. Numbers are the integers and \<open>NaN\<close>. Symbol keys,
  accessor properties and an own key named \<^verbatim>\<open>__proto__\<close> are outside the model.
\<close>

datatype 'f val =
    Undefined
  | Null
  | Bool bool
  | Num int
  | NaN
  | Str string
  | Arr "'f val list"
  | Obj "(string \<times> 'f val) list"
  | Fun 'f
  | Builtin string

datatype jstype = TUndefined | TObject | TBoolean | TNumber | TString | TFunction

fun typeof :: "'f val \<Rightarrow> jstype" where
  "typeof Undefined = TUndefined"
| "typeof Null = TObject"
| "typeof (Bool b) = TBoolean"
| "typeof (Num n) = TNumber"
| "typeof NaN = TNumber"
| "typeof (Str s) = TString"
| "typeof (Arr xs) = TObject"
| "typeof (Obj kvs) = TObject"
| "typeof (Fun f) = TFunction"
| "typeof (Builtin n) = (if n = ''__proto__'' then TObject else TFunction)"

fun type_name :: "jstype \<Rightarrow> string" where
  "type_name TUndefined = ''undefined''"
| "type_name TObject = ''object''"
| "type_name TBoolean = ''boolean''"
| "type_name TNumber = ''number''"
| "type_name TString = ''string''"
| "type_name TFunction = ''function''"

text \<open>\<^verbatim>\<open>if (v)\<close>: the falsy values are undefined, null, false, 0, NaN and the empty string.\<close>

fun truthy :: "'f val \<Rightarrow> bool" where
  "truthy Undefined = False"
| "truthy Null = False"
| "truthy (Bool b) = b"
| "truthy (Num n) = (n \<noteq> 0)"
| "truthy NaN = False"
| "truthy (Str s) = (s \<noteq> [])"
| "truthy (Arr xs) = True"
| "truthy (Obj kvs) = True"
| "truthy (Fun f) = True"
| "truthy (Builtin n) = True"

text \<open>The decimal name of an array index, which is the key \<^verbatim>\<open>for in\<close> gives it.\<close>

definition digit :: "nat \<Rightarrow> char" where
  "digit n = ''0123456789'' ! n"

fun index_key :: "nat \<Rightarrow> string" where
  "index_key n =
     (if n < 10 then [digit n] else index_key (n div 10) @ [digit (n mod 10)])"

declare index_key.simps [simp del]

text \<open>
  The own enumerable properties of a value that passed \<^verbatim>\<open>typeof v === 'object'\<close>:
  what \<^verbatim>\<open>for in\<close> enumerates and what \<^verbatim>\<open>Object.assign({}, v)\<close> copies.
  \<^verbatim>\<open>null\<close> has none.
\<close>

fun entries :: "'f val \<Rightarrow> (string \<times> 'f val) list" where
  "entries (Obj kvs) = kvs"
| "entries (Arr xs) = zip (map index_key [0..<length xs]) xs"
| "entries v = []"

text \<open>
  The names \<^verbatim>\<open>Object.prototype\<close> defines. None is enumerable, so \<^verbatim>\<open>for in\<close>
  never visits them, but a property read \<^verbatim>\<open>obj[name]\<close> on a plain object finds them
  when the object has no own property of that name.
\<close>

definition object_prototype_names :: "string list" where
  "object_prototype_names =
     [''constructor'', ''__defineGetter__'', ''__defineSetter__'', ''hasOwnProperty'',
      ''__lookupGetter__'', ''__lookupSetter__'', ''isPrototypeOf'',
      ''propertyIsEnumerable'', ''toString'', ''valueOf'', ''__proto__'',
      ''toLocaleString'']"

text \<open>\<^verbatim>\<open>obj[k]\<close> on a plain object: the own property, else the inherited one, else undefined.\<close>

definition get_prop :: "(string \<times> 'f val) list \<Rightarrow> string \<Rightarrow> 'f val" where
  "get_prop kvs k =
     (case map_of kvs k of
        Some v \<Rightarrow> v
      | None \<Rightarrow> if k \<in> set object_prototype_names then Builtin k else Undefined)"

section \<open>Errors\<close>

text \<open>
  Every \<^verbatim>\<open>throw new Error(...)\<close> of the source is a constructor, with the parts the
  message interpolates. \<open>TypeError\<close> is the error the runtime raises by itself,
  \<open>Thrown\<close> what a mutation or an action throws.
\<close>

datatype error =
    SeedRequiredError
  | NoPointError
  | ValidationError string
  | DisallowedTypeError string string
  | DontTouchMyReservedwords string
  | NoDirectAccessForYou
  | NoSuchMutationError string
  | NoSuchActionError string
  | TypeError
  | Thrown string


definition RESERVEDWORDS :: "string list" where
  "RESERVEDWORDS = [''data'', ''action'', ''commit'']"

section \<open>The seed normalizer: \<^verbatim>\<open>setProp\<close> and \<^verbatim>\<open>validate\<close>\<close>

text \<open>\<^verbatim>\<open>/(actions|mutations)/.test(desc)\<close>: one of the two words occurs in \<open>desc\<close>.\<close>

fun starts_with :: "string \<Rightarrow> string \<Rightarrow> bool" where
  "starts_with [] s = True"
| "starts_with (p # ps) [] = False"
| "starts_with (p # ps) (c # cs) = (p = c \<and> starts_with ps cs)"

fun occurs_in :: "string \<Rightarrow> string \<Rightarrow> bool" where
  "occurs_in p [] = starts_with p []"
| "occurs_in p (c # cs) = (starts_with p (c # cs) \<or> occurs_in p cs)"

text \<open>
  \<^verbatim>\<open>validate(obj, types, desc)\<close>, lines 287 to 308. The first loop throws at the first
  reserved key, the second at the first value whose type is not allowed.
  \<open>accepts_all\<close> is \<^verbatim>\<open>types[0] === '*'\<close>.
\<close>

definition accepts_all :: "string list \<Rightarrow> bool" where
  "accepts_all types = (case types of [] \<Rightarrow> False | t # ts \<Rightarrow> t = ''*'')"

definition validate :: "'f val \<Rightarrow> string list \<Rightarrow> string \<Rightarrow> error + 'f val" where
  "validate obj types desc =
     (if typeof obj \<noteq> TObject then Inl (ValidationError desc)
      else case find (\<lambda>key. key \<in> set RESERVEDWORDS) (map fst (entries obj)) of
        Some key \<Rightarrow> Inl (DontTouchMyReservedwords key)
      | None \<Rightarrow>
          if accepts_all types then Inr obj
          else (case find (\<lambda>t. t \<notin> set types)
                       (map (\<lambda>kv. type_name (typeof (snd kv))) (entries obj)) of
             Some t \<Rightarrow> Inl (DisallowedTypeError desc t)
           | None \<Rightarrow> Inr obj))"

text \<open>
  \<^verbatim>\<open>setProp(value, desc)\<close>, lines 248 to 268. \<open>value\<close> is what the caller supplied
  for the group, \<open>Undefined\<close> when the group is absent. \<open>call0 f\<close> is what the function
  value \<open>f\<close> returns when it is called with no arguments, \<^verbatim>\<open>value()\<close> of line 256; it
  is a parameter, since a function value of the model holds no code for that call.
  \<open>ret\<close> starts undefined; a falsy \<open>value\<close> makes it the empty object, a \<open>value\<close>
  whose type is \<^verbatim>\<open>'function'\<close> makes it the result of the call, and a \<open>ret\<close> that is
  still falsy becomes \<open>value\<close> itself: that is \<open>candidate\<close>, lines 249 to 261. The
  result of \<open>setProp\<close> is \<^verbatim>\<open>Object.assign({}, validate(ret, types, desc))\<close>, the
  copied properties.
\<close>

definition candidate :: "('f val \<Rightarrow> 'f val) \<Rightarrow> 'f val \<Rightarrow> 'f val" where
  "candidate call0 value =
     (let ret1 = (if \<not> truthy value then Obj [] else Undefined);
          ret2 = (if typeof value = TFunction then call0 value else ret1);
          ret3 = (if \<not> truthy ret2 then value else ret2)
      in ret3)"

definition setProp ::
  "('f val \<Rightarrow> 'f val) \<Rightarrow> 'f val \<Rightarrow> string \<Rightarrow> error + (string \<times> 'f val) list" where
  "setProp call0 value desc =
     (let ret = candidate call0 value;
          types = (if occurs_in ''actions'' desc \<or> occurs_in ''mutations'' desc
                   then [''function''] else [''*''])
      in case validate ret types desc of
           Inl e \<Rightarrow> Inl e
         | Inr obj \<Rightarrow> Inr (entries obj))"

text \<open>\<^verbatim>\<open>props(obj)\<close> of \<^verbatim>\<open>src/lib/utils.js\<close>, on an object: it has at least one key.\<close>

definition props :: "(string \<times> 'f val) list \<Rightarrow> bool" where
  "props obj = (length (map fst obj) \<ge> 1)"

section \<open>The store\<close>

text \<open>
  The seed object, and the root record \<^verbatim>\<open>{ data, mutations, actions }\<close> that the
  proxy wraps. \<open>Store calls None\<close> is a call whose argument is not an object. \<open>calls\<close>
  gives, for each of the three groups, the \<open>call0\<close> of its function values.
\<close>

record ('d, 'm, 'a) seed =
  seed_data :: "'d val"
  seed_mutations :: "'m val"
  seed_actions :: "'a val"

record ('d, 'm, 'a) calls =
  call_data :: "'d val \<Rightarrow> 'd val"
  call_mutations :: "'m val \<Rightarrow> 'm val"
  call_actions :: "'a val \<Rightarrow> 'a val"

record ('d, 'm, 'a) root =
  data :: "(string \<times> 'd val) list"
  mutations :: "(string \<times> 'm val) list"
  actions :: "(string \<times> 'a val) list"

text \<open>\<^verbatim>\<open>Store(seed)\<close>, lines 214 to 235: the three groups are normalized in this order.\<close>

definition Store ::
  "('d, 'm, 'a) calls \<Rightarrow> ('d, 'm, 'a) seed option \<Rightarrow> error + ('d, 'm, 'a) root" where
  "Store calls seed =
     (case seed of
        None \<Rightarrow> Inl SeedRequiredError
      | Some s \<Rightarrow>
          (case setProp (call_data calls) (seed_data s) ''data'' of
             Inl e \<Rightarrow> Inl e
           | Inr d \<Rightarrow>
               (case setProp (call_mutations calls) (seed_mutations s) ''mutations'' of
                  Inl e \<Rightarrow> Inl e
                | Inr m \<Rightarrow>
                    (case setProp (call_actions calls) (seed_actions s) ''actions'' of
                       Inl e \<Rightarrow> Inl e
                     | Inr a \<Rightarrow>
                         if \<not> props d \<and> \<not> props m then Inl NoPointError
                         else Inr \<lparr>data = d, mutations = m, actions = a\<rparr>))))"

section \<open>The dispatcher: \<^verbatim>\<open>commit\<close> and \<^verbatim>\<open>action\<close>\<close>

text \<open>How a call ends: it returns a value or it throws.\<close>

datatype 'r outcome = Returned 'r | Threw error

text \<open>
  A mutation is a function \<^verbatim>\<open>(state, value) => ...\<close>. It may change the properties of
  \<open>state\<close> in place and then return a value or throw: the model gives the properties
  after the call and how the call ended (\<open>Inl\<close> when it threw).
\<close>

type_synonym 'd mutation =
  "(string \<times> 'd val) list \<Rightarrow> 'd val \<Rightarrow> (string \<times> 'd val) list \<times> (error + 'd val)"

text \<open>
  An action is a function \<^verbatim>\<open>(commit, value) => ...\<close> whose only way to the store is
  the \<open>commit\<close> it is given. Its body is a script: it ends with a result, it throws,
  or it calls \<open>commit\<close> with a name and a value and goes on from how that call ended.
  An \<^verbatim>\<open>async\<close> action returns a promise: the script of what is left of its body,
  which runs once the caller awaits it.
\<close>

datatype ('d, 'r) script =
    Done 'r
  | Raise error
  | Call string "'d val" "'d val outcome \<Rightarrow> ('d, 'r) script"

datatype 'd result = Value "'d val" | Promise "('d, 'd val) script"

type_synonym 'd action = "'d val \<Rightarrow> ('d, 'd result) script"

type_synonym 'd store = "('d, 'd mutation, 'd action) root"

text \<open>
  The functions of \<^verbatim>\<open>Object.prototype\<close> are the runtime's, not the repository's, and
  the dispatchers can reach them: \<^verbatim>\<open>this.mutations[name]\<close> and
  \<^verbatim>\<open>this.actions[name]\<close> find them under the names no group registers. What they do
  is a parameter. \<open>native_mutation rt n this value\<close> is the call
  \<^verbatim>\<open>this.mutations[n](this.data, value)\<close> of the inherited function \<open>n\<close>, and
  \<open>native_action rt n this value\<close> the call
  \<^verbatim>\<open>this.actions[n](commit.bind(this), value)\<close>: each gives the root after the call
  and how the call ended (\<open>Inl\<close> when it threw).
\<close>

record 'd runtime =
  native_mutation :: "string \<Rightarrow> 'd store \<Rightarrow> 'd val \<Rightarrow> 'd store \<times> (error + 'd val)"
  native_action :: "string \<Rightarrow> 'd store \<Rightarrow> 'd val \<Rightarrow> 'd store \<times> (error + 'd result)"

text \<open>
  Lines 322 to 327 of \<open>commit\<close>: the scan of the keys of \<^verbatim>\<open>this.data\<close> after the
  mutation has returned \<open>ret\<close>, which throws at the first reserved key.
\<close>

definition scan :: "'d store \<Rightarrow> 'd val \<Rightarrow> 'd store \<times> 'd val outcome" where
  "scan this ret =
     (case find (\<lambda>key. key \<in> set RESERVEDWORDS) (map fst (data this)) of
        Some key \<Rightarrow> (this, Threw (DontTouchMyReservedwords key))
      | None \<Rightarrow> (this, Returned ret))"

text \<open>
  \<^verbatim>\<open>commit(name, value)\<close>, lines 319 to 330, with \<open>this\<close> the root record. The
  mutation runs on \<^verbatim>\<open>this.data\<close> itself, so what it did stays when it throws and when
  the scan after it throws. A mutation that throws leaves \<open>commit\<close> at line 321: no scan
  is made. A truthy value that is not a function cannot be called: a \<^verbatim>\<open>TypeError\<close>.
\<close>

definition commit ::
  "'d runtime \<Rightarrow> 'd store \<Rightarrow> string \<Rightarrow> 'd val \<Rightarrow> 'd store \<times> 'd val outcome" where
  "commit rt this name value =
     (if truthy (get_prop (mutations this) name) then
        (case get_prop (mutations this) name of
           Fun f \<Rightarrow>
             (case f (data this) value of
                (d, Inl e) \<Rightarrow> (this\<lparr>data := d\<rparr>, Threw e)
              | (d, Inr ret) \<Rightarrow> scan (this\<lparr>data := d\<rparr>) ret)
         | Builtin n \<Rightarrow>
             if typeof (Builtin n :: 'd mutation val) = TFunction then
               (case native_mutation rt n this value of
                  (this', Inl e) \<Rightarrow> (this', Threw e)
                | (this', Inr ret) \<Rightarrow> scan this' ret)
             else (this, Threw TypeError)
         | v \<Rightarrow> (this, Threw TypeError))
      else (this, Threw (NoSuchMutationError name)))"

text \<open>Running a script against the store: each \<open>Call\<close> is \<^verbatim>\<open>commit.bind(this)\<close>.\<close>

primrec run :: "'d runtime \<Rightarrow> ('d, 'r) script \<Rightarrow> 'd store \<Rightarrow> 'd store \<times> 'r outcome" where
  "run rt (Done r) this = (this, Returned r)"
| "run rt (Raise e) this = (this, Threw e)"
| "run rt (Call name value k) this =
     (case commit rt this name value of (this', out) \<Rightarrow> run rt (k out) this')"

text \<open>
  \<^verbatim>\<open>action(name, value)\<close>, lines 341 to 346: the action's own return value is
  returned as it is, a promise still pending included.
\<close>

definition action ::
  "'d runtime \<Rightarrow> 'd store \<Rightarrow> string \<Rightarrow> 'd val \<Rightarrow> 'd store \<times> 'd result outcome" where
  "action rt this name value =
     (if truthy (get_prop (actions this) name) then
        (case get_prop (actions this) name of
           Fun f \<Rightarrow> run rt (f value) this
         | Builtin n \<Rightarrow>
             if typeof (Builtin n :: 'd action val) = TFunction then
               (case native_action rt n this value of
                  (this', Inl e) \<Rightarrow> (this', Threw e)
                | (this', Inr r) \<Rightarrow> (this', Returned r))
             else (this, Threw TypeError)
         | v \<Rightarrow> (this, Threw TypeError))
      else (this, Threw (NoSuchActionError name)))"

text \<open>\<^verbatim>\<open>await r\<close> by the caller: a promise runs what is left of the action's body.\<close>

fun await :: "'d runtime \<Rightarrow> 'd result \<Rightarrow> 'd store \<Rightarrow> 'd store \<times> 'd val outcome" where
  "await rt (Value v) this = (this, Returned v)"
| "await rt (Promise p) this = run rt p this"

section \<open>The access guard\<close>

text \<open>
  What a read of the handle gives: the bound \<open>commit\<close>, the bound \<open>action\<close>, or a
  value, \<open>Got Undefined\<close> when the trap returns nothing.
\<close>

datatype 'd got = BoundCommit | BoundAction | Got "'d val"

text \<open>\<^verbatim>\<open>handler.get\<close>, lines 177 to 193, and \<^verbatim>\<open>handler.set\<close>, lines 194 to 196.\<close>

definition handler_get :: "'d store \<Rightarrow> string \<Rightarrow> error + 'd got" where
  "handler_get target prop =
     (if prop = ''commit'' then Inr BoundCommit
      else if prop = ''action'' then Inr BoundAction
      else if prop = ''data'' then Inl NoDirectAccessForYou
      else if truthy (get_prop (data target) prop) then Inr (Got (get_prop (data target) prop))
      else Inr (Got Undefined))"

definition handler_set :: "'d store \<Rightarrow> string \<Rightarrow> 'd val \<Rightarrow> bool" where
  "handler_set target prop v = True"

text \<open>
  The handle is \<^verbatim>\<open>Object.freeze(new Proxy({ data, mutations, actions }, handler))\<close>
  (line 230). The handler has no trap for \<^verbatim>\<open>preventExtensions\<close>,
  \<^verbatim>\<open>ownKeys\<close>, \<^verbatim>\<open>getOwnPropertyDescriptor\<close> or \<^verbatim>\<open>defineProperty\<close>, so
  \<^verbatim>\<open>Object.freeze\<close> reaches the target: its three own properties become
  non-writable and non-configurable. For such a property the language checks what a
  proxy trap reports. A read (\<^verbatim>\<open>[[Get]]\<close> of a proxy) throws a \<^verbatim>\<open>TypeError\<close> unless
  the \<^verbatim>\<open>get\<close> trap returned the very value of the target's property, and a write
  (\<^verbatim>\<open>[[Set]]\<close>) throws a \<^verbatim>\<open>TypeError\<close> when the \<^verbatim>\<open>set\<close> trap returned true
  for another value than the target's. The target's three values are the objects that
  \<^verbatim>\<open>setProp\<close> made by \<^verbatim>\<open>Object.assign({}, ...)\<close>; values of the model are plain
  data handed around by value, so none of them is one of these three objects.
\<close>

definition target_keys :: "string list" where
  "target_keys = [''data'', ''mutations'', ''actions'']"

definition proxy_get :: "'d store \<Rightarrow> string \<Rightarrow> error + 'd got" where
  "proxy_get target prop =
     (case handler_get target prop of
        Inl e \<Rightarrow> Inl e
      | Inr r \<Rightarrow> if prop \<in> set target_keys then Inl TypeError else Inr r)"

definition proxy_set :: "'d store \<Rightarrow> string \<Rightarrow> 'd val \<Rightarrow> 'd store \<times> (error + bool)" where
  "proxy_set target prop v =
     (if handler_set target prop v
      then (if prop \<in> set target_keys then (target, Inl TypeError) else (target, Inr True))
      else (target, Inr False))"

text \<open>
  The calls of the handle: \<^verbatim>\<open>handle.commit(name, value)\<close> reads \<open>commit\<close> and
  calls what it got, and so for \<^verbatim>\<open>handle.action(name, value)\<close>.
\<close>

definition handle_commit ::
  "'d runtime \<Rightarrow> 'd store \<Rightarrow> string \<Rightarrow> 'd val \<Rightarrow> 'd store \<times> 'd val outcome" where
  "handle_commit rt target name value =
     (case proxy_get target ''commit'' of
        Inr BoundCommit \<Rightarrow> commit rt target name value
      | Inr r \<Rightarrow> (target, Threw TypeError)
      | Inl e \<Rightarrow> (target, Threw e))"

definition handle_action ::
  "'d runtime \<Rightarrow> 'd store \<Rightarrow> string \<Rightarrow> 'd val \<Rightarrow> 'd store \<times> 'd result outcome" where
  "handle_action rt target name value =
     (case proxy_get target ''action'' of
        Inr BoundAction \<Rightarrow> action rt target name value
      | Inr r \<Rightarrow> (target, Threw TypeError)
      | Inl e \<Rightarrow> (target, Threw e))"

text \<open>
  The mutation \<^verbatim>\<open>(s, v) => { s[k] = v; }\<close>: an own property keeps its place, a new one
  comes last.
\<close>

fun assign :: "string \<Rightarrow> 'd val \<Rightarrow> (string \<times> 'd val) list \<Rightarrow> (string \<times> 'd val) list" where
  "assign k v [] = [(k, v)]"
| "assign k v ((k', v') # kvs) = (if k = k' then (k, v) # kvs else (k', v') # assign k v kvs)"

definition setter :: "string \<Rightarrow> 'd mutation" where
  "setter k = (\<lambda>s v. (assign k v s, Inr Undefined))"

section \<open>The stores of the examples\<close>

text \<open>
  No seed of the examples but one holds a function as a group, so \<open>no_calls\<close> is never
  asked; \<open>string_calls\<close> is for the seed \<^verbatim>\<open>{data: () => 'data'}\<close> of the tests.
  The only inherited function the examples reach is \<open>toString\<close>, which returns
  \<^verbatim>\<open>'[object Object]'\<close> on a plain object and changes nothing: \<open>plain_runtime\<close> gives
  this behaviour under every name, and no example calls another name.
\<close>

definition no_calls :: "(unit, unit mutation, unit action) calls" where
  "no_calls =
     \<lparr>call_data = (\<lambda>v. Undefined), call_mutations = (\<lambda>v. Undefined),
      call_actions = (\<lambda>v. Undefined)\<rparr>"


definition plain_runtime :: "unit runtime" where
  "plain_runtime =
     \<lparr>native_mutation = (\<lambda>n this v. (this, Inr (Str ''[object Object]''))),
      native_action = (\<lambda>n this v. (this, Inr (Value (Str ''[object Object]''))))\<rparr>"

text \<open>
  \<^verbatim>\<open>{data: {a: 1}, mutations: {set: (s, v) => { s.a = v; }}}\<close> and the store
  \<^verbatim>\<open>Store\<close> builds from it.
\<close>

definition roundtrip_seed :: "(unit, unit mutation, unit action) seed" where
  "roundtrip_seed =
     \<lparr>seed_data = Obj [(''a'', Num 1)],
      seed_mutations = Obj [(''set'', Fun (setter ''a''))],
      seed_actions = Undefined\<rparr>"

definition roundtrip_store :: "unit store" where
  "roundtrip_store =
     \<lparr>data = [(''a'', Num 1)], mutations = [(''set'', Fun (setter ''a''))], actions = []\<rparr>"

text \<open>
  \<^verbatim>\<open>{data: {a: 1}, mutations: {smuggle: (s, v) => { s.data = v; }}}\<close>: a mutation
  that puts a reserved word among the keys of the data.
\<close>

definition smuggle_seed :: "(unit, unit mutation, unit action) seed" where
  "smuggle_seed =
     \<lparr>seed_data = Obj [(''a'', Num 1)],
      seed_mutations = Obj [(''smuggle'', Fun (setter ''data''))],
      seed_actions = Undefined\<rparr>"

definition smuggle_store :: "unit store" where
  "smuggle_store =
     \<lparr>data = [(''a'', Num 1)], mutations = [(''smuggle'', Fun (setter ''data''))],
      actions = []\<rparr>"

text \<open>
  \<^verbatim>\<open>{data: {a: 1}, mutations: {smuggle: (s, v) => { s.data = v; throw new Error('boom'); }}}\<close>:
  a mutation that puts a reserved word among the keys of the data and then throws.
\<close>

definition smuggle_then_throw :: "unit mutation" where
  "smuggle_then_throw = (\<lambda>s v. (assign ''data'' v s, Inl (Thrown ''boom'')))"

definition thrower_seed :: "(unit, unit mutation, unit action) seed" where
  "thrower_seed =
     \<lparr>seed_data = Obj [(''a'', Num 1)],
      seed_mutations = Obj [(''smuggle'', Fun smuggle_then_throw)],
      seed_actions = Undefined\<rparr>"

definition thrower_store :: "unit store" where
  "thrower_store =
     \<lparr>data = [(''a'', Num 1)], mutations = [(''smuggle'', Fun smuggle_then_throw)],
      actions = []\<rparr>"

text \<open>
  \<^verbatim>\<open>{data: {a: 1}, mutations: {both: (s, v) => { s.a = v; s.commit = v; }}}\<close>: a
  mutation that changes a key of the data and adds a reserved one.
\<close>

definition overwrite_and_smuggle :: "unit mutation" where
  "overwrite_and_smuggle = (\<lambda>s v. (assign ''commit'' v (assign ''a'' v s), Inr Undefined))"

definition overwrite_store :: "unit store" where
  "overwrite_store =
     \<lparr>data = [(''a'', Num 1)], mutations = [(''both'', Fun overwrite_and_smuggle)],
      actions = []\<rparr>"

text \<open>
  The asynchronous scenario:
  \<^verbatim>\<open>{data: {x: null}, mutations: {setX: (s, v) => { s.x = v; }},
   actions: {go: async (commit, v) => { await delay(1); commit('setX', v); }}}\<close>.
  Calling \<open>go\<close> runs its body up to the first \<^verbatim>\<open>await\<close> and returns the promise of
  the rest: the call of \<open>commit\<close>, whose error, if it throws, rejects the promise.
\<close>

definition go :: "unit action" where
  "go = (\<lambda>v. Done (Promise (Call ''setX'' v
           (\<lambda>out. case out of Threw e \<Rightarrow> Raise e | Returned r \<Rightarrow> Done Undefined))))"

definition async_seed :: "(unit, unit mutation, unit action) seed" where
  "async_seed =
     \<lparr>seed_data = Obj [(''x'', Null)],
      seed_mutations = Obj [(''setX'', Fun (setter ''x''))],
      seed_actions = Obj [(''go'', Fun go)]\<rparr>"

definition async_store :: "unit store" where
  "async_store =
     \<lparr>data = [(''x'', Null)], mutations = [(''setX'', Fun (setter ''x''))],
      actions = [(''go'', Fun go)]\<rparr>"

text \<open>
  The same store with the synchronous action
  \<^verbatim>\<open>goNow: (commit, v) => { commit('setX', v); }\<close>, which returns \<^verbatim>\<open>undefined\<close>.
\<close>

definition go_now :: "unit action" where
  "go_now = (\<lambda>v. Call ''setX'' v
           (\<lambda>out. case out of Threw e \<Rightarrow> Raise e | Returned r \<Rightarrow> Done (Value Undefined)))"

definition sync_store :: "unit store" where
  "sync_store =
     \<lparr>data = [(''x'', Null)], mutations = [(''setX'', Fun (setter ''x''))],
      actions = [(''goNow'', Fun go_now)]\<rparr>"

text \<open>\<^verbatim>\<open>{data: {a: 1}}\<close>, the store of the dispatch-miss and direct-access tests.\<close>

definition data_only_seed :: "(unit, unit mutation, unit action) seed" where
  "data_only_seed =
     \<lparr>seed_data = Obj [(''a'', Num 1)], seed_mutations = Undefined,
      seed_actions = Undefined\<rparr>"

definition data_only_store :: "unit store" where
  "data_only_store = \<lparr>data = [(''a'', Num 1)], mutations = [], actions = []\<rparr>"



text \<open>\<^verbatim>\<open>{data: {commit: 1, data: 2}}\<close>: two reserved words among the keys of one group.\<close>

definition two_reserved_seed :: "(unit, unit mutation, unit action) seed" where
  "two_reserved_seed =
     \<lparr>seed_data = Obj [(''commit'', Num 1), (''data'', Num 2)],
      seed_mutations = Undefined, seed_actions = Undefined\<rparr>"

text \<open>
  \<^verbatim>\<open>{data: {a: 1}, mutations: {commit: (s, v) => { s.a = v; }}}\<close> and
  \<^verbatim>\<open>{data: {a: 1}, actions: {action: go}}\<close>: a reserved word as a key of the second
  and of the third group.
\<close>

definition reserved_mutation_seed :: "(unit, unit mutation, unit action) seed" where
  "reserved_mutation_seed =
     \<lparr>seed_data = Obj [(''a'', Num 1)],
      seed_mutations = Obj [(''commit'', Fun (setter ''a''))],
      seed_actions = Undefined\<rparr>"

definition reserved_action_seed :: "(unit, unit mutation, unit action) seed" where
  "reserved_action_seed =
     \<lparr>seed_data = Obj [(''a'', Num 1)],
      seed_mutations = Undefined,
      seed_actions = Obj [(''action'', Fun go)]\<rparr>"

text \<open>The keys of a group once it is normalized: those of the candidate \<open>validate\<close> scans.\<close>

definition normalized_keys :: "('f val \<Rightarrow> 'f val) \<Rightarrow> 'f val \<Rightarrow> string list" where
  "normalized_keys call0 value = map fst (entries (candidate call0 value))"

text \<open>\<^verbatim>\<open>{data: {mutations: 5}}\<close>: a key of the data that is also a key of the root.\<close>

definition shadow_seed :: "(unit, unit mutation, unit action) seed" where
  "shadow_seed =
     \<lparr>seed_data = Obj [(''mutations'', Num 5)], seed_mutations = Undefined,
      seed_actions = Undefined\<rparr>"

definition shadow_store :: "unit store" where
  "shadow_store = \<lparr>data = [(''mutations'', Num 5)], mutations = [], actions = []\<rparr>"

section \<open>Facts shared by the proofs\<close>

lemma Store_roundtrip_seed: "Store calls (Some roundtrip_seed) = Inr roundtrip_store"
  by (simp add: Store_def setProp_def candidate_def validate_def accepts_all_def props_def
      RESERVEDWORDS_def roundtrip_seed_def roundtrip_store_def)

lemma Store_smuggle_seed: "Store calls (Some smuggle_seed) = Inr smuggle_store"
  by (simp add: Store_def setProp_def candidate_def validate_def accepts_all_def props_def
      RESERVEDWORDS_def smuggle_seed_def smuggle_store_def)

lemma Store_thrower_seed: "Store calls (Some thrower_seed) = Inr thrower_store"
  by (simp add: Store_def setProp_def candidate_def validate_def accepts_all_def props_def
      RESERVEDWORDS_def thrower_seed_def thrower_store_def)

lemma proxy_get_commit: "proxy_get target ''commit'' = Inr BoundCommit"
  by (simp add: proxy_get_def handler_get_def target_keys_def)

lemma proxy_get_action: "proxy_get target ''action'' = Inr BoundAction"
  by (simp add: proxy_get_def handler_get_def target_keys_def)

lemma handle_commit_is_commit:
  "handle_commit rt target name value = commit rt target name value"
  by (simp add: handle_commit_def proxy_get_commit)

lemma handle_action_is_action:
  "handle_action rt target name value = action rt target name value"
  by (simp add: handle_action_def proxy_get_action)

lemma get_prop_own: "map_of kvs k = Some v \<Longrightarrow> get_prop kvs k = v"
  by (simp add: get_prop_def)

lemma commit_registered:
  assumes "map_of (mutations this) name = Some (Fun f)"
  shows "commit rt this name value =
     (case f (data this) value of
        (d, Inl e) \<Rightarrow> (this\<lparr>data := d\<rparr>, Threw e)
      | (d, Inr ret) \<Rightarrow> scan (this\<lparr>data := d\<rparr>) ret)"
  using assms by (simp add: commit_def get_prop_own)

lemma commit_registered_throws:
  assumes "map_of (mutations this) name = Some (Fun f)" and "f (data this) value = (d, Inl e)"
  shows "commit rt this name value = (this\<lparr>data := d\<rparr>, Threw e)"
  using assms by (simp add: commit_registered)

lemma commit_registered_returns:
  assumes "map_of (mutations this) name = Some (Fun f)" and "f (data this) value = (d, Inr ret)"
  shows "commit rt this name value =
     (case find (\<lambda>key. key \<in> set RESERVEDWORDS) (map fst d) of
        Some key \<Rightarrow> (this\<lparr>data := d\<rparr>, Threw (DontTouchMyReservedwords key))
      | None \<Rightarrow> (this\<lparr>data := d\<rparr>, Returned ret))"
  using assms by (simp add: commit_registered scan_def)

lemma fst_commit_registered:
  assumes "map_of (mutations this) name = Some (Fun f)"
  shows "fst (commit rt this name value) = this\<lparr>data := fst (f (data this) value)\<rparr>"
  using assms
  by (simp add: commit_registered scan_def split: prod.splits sum.splits option.splits)

lemma Store_async_seed: "Store calls (Some async_seed) = Inr async_store"
  by (simp add: Store_def setProp_def candidate_def validate_def accepts_all_def props_def
      RESERVEDWORDS_def async_seed_def async_store_def)

lemma action_registered:
  assumes "map_of (actions this) name = Some (Fun a)"
  shows "action rt this name value = run rt (a value) this"
  using assms by (simp add: action_def get_prop_own)

lemma async_scenario:
  "case handle_action rt async_store ''go'' (Str ''tigerbalm'') of
     (s, Returned r) \<Rightarrow>
       s = async_store
       \<and> (case await rt r s of
            (s', out) \<Rightarrow> out = Returned Undefined
              \<and> proxy_get s' ''x'' = Inr (Got (Str ''tigerbalm'')))
   | (s, Threw e) \<Rightarrow> False"
  by (simp add: handle_action_is_action action_def get_prop_def async_store_def go_def
      commit_def scan_def setter_def RESERVEDWORDS_def proxy_get_def handler_get_def
      target_keys_def)

lemma entries_typeof: "entries v \<noteq> [] \<Longrightarrow> typeof v = TObject"
  by (cases v) simp_all

lemma setProp_reserved:
  assumes "find (\<lambda>key. key \<in> set RESERVEDWORDS) (normalized_keys call0 value) = Some key"
  shows "setProp call0 value desc = Inl (DontTouchMyReservedwords key)"
proof -
  from assms have "normalized_keys call0 value \<noteq> []"
    by auto
  then have "typeof (candidate call0 value) = TObject"
    by (auto simp: normalized_keys_def intro: entries_typeof)
  with assms show ?thesis
    by (simp add: setProp_def validate_def normalized_keys_def Let_def)
qed

lemma reserved_found:
  assumes "w \<in> set RESERVEDWORDS" and "w \<in> set ks"
  obtains key where "find (\<lambda>key. key \<in> set RESERVEDWORDS) ks = Some key"
    and "key \<in> set RESERVEDWORDS" and "key \<in> set ks"
proof (cases "find (\<lambda>key. key \<in> set RESERVEDWORDS) ks")
  case None
  with assms show ?thesis by (auto simp: find_None_iff)
next
  case (Some key)
  then have "key \<in> set RESERVEDWORDS" and "key \<in> set ks"
    by (auto simp: find_Some_iff)
  with Some that show ?thesis by blast
qed

lemma Store_fails_data:
  "setProp (call_data calls) (seed_data s) ''data'' = Inl e \<Longrightarrow> Store calls (Some s) = Inl e"
  by (simp add: Store_def)

lemma Store_fails_mutations:
  "setProp (call_data calls) (seed_data s) ''data'' = Inr d
   \<Longrightarrow> setProp (call_mutations calls) (seed_mutations s) ''mutations'' = Inl e
   \<Longrightarrow> Store calls (Some s) = Inl e"
  by (simp add: Store_def)

lemma Store_fails_actions:
  "setProp (call_data calls) (seed_data s) ''data'' = Inr d
   \<Longrightarrow> setProp (call_mutations calls) (seed_mutations s) ''mutations'' = Inr m
   \<Longrightarrow> setProp (call_actions calls) (seed_actions s) ''actions'' = Inl e
   \<Longrightarrow> Store calls (Some s) = Inl e"
  by (simp add: Store_def)

lemma Store_fails_any:
  assumes "setProp (call_data calls) (seed_data s) ''data'' = Inl e1
    \<or> setProp (call_mutations calls) (seed_mutations s) ''mutations'' = Inl e2
    \<or> setProp (call_actions calls) (seed_actions s) ''actions'' = Inl e3"
  shows "\<exists>e. Store calls (Some s) = Inl e"
  using assms by (auto simp: Store_def split: sum.splits)







lemma Store_data_only_seed: "Store calls (Some data_only_seed) = Inr data_only_store"
  by (simp add: Store_def setProp_def candidate_def validate_def accepts_all_def props_def
      RESERVEDWORDS_def data_only_seed_def data_only_store_def)

lemma Store_shadow_seed: "Store calls (Some shadow_seed) = Inr shadow_store"
  by (simp add: Store_def setProp_def candidate_def validate_def accepts_all_def props_def
      RESERVEDWORDS_def shadow_seed_def shadow_store_def)

text \<open>
  What holds of the reads and writes of the handle away from the three keys of the root:
  a read of a key other than \<open>commit\<close>, \<open>action\<close> and \<open>data\<close> gives the value of the
  data when it is truthy and nothing otherwise, a write changes nothing and raises
  nothing, and a read after a write gives what it gave before.
\<close>

lemma proxy_get_other:
  assumes "k \<notin> set [''commit'', ''action'', ''data'', ''mutations'', ''actions'']"
  shows "proxy_get target k =
     Inr (Got (if truthy (get_prop (data target) k) then get_prop (data target) k
               else Undefined))"
  using assms by (simp add: proxy_get_def handler_get_def target_keys_def)

lemma proxy_get_data: "proxy_get target ''data'' = Inl NoDirectAccessForYou"
  by (simp add: proxy_get_def handler_get_def)

lemma proxy_get_never_throws_elsewhere:
  assumes "k \<notin> set [''data'', ''mutations'', ''actions'']"
  shows "\<exists>r. proxy_get target k = Inr r"
  using assms by (simp add: proxy_get_def handler_get_def target_keys_def)

lemma proxy_set_unchanged: "fst (proxy_set target k v) = target"
  by (simp add: proxy_set_def)

lemma proxy_set_other:
  assumes "k \<notin> set [''data'', ''mutations'', ''actions'']"
  shows "proxy_set target k v = (target, Inr True)"
  using assms by (simp add: proxy_set_def handler_set_def target_keys_def)

lemma read_after_write: "proxy_get (fst (proxy_set target k v)) k = proxy_get target k"
  by (simp add: proxy_set_unchanged)

text \<open>
  A name that is neither a key of the group nor a name of \<^verbatim>\<open>Object.prototype\<close> is
  refused by both dispatchers.
\<close>

lemma commit_unregistered:
  assumes "map_of (mutations this) name = None" and "name \<notin> set object_prototype_names"
  shows "commit rt this name value = (this, Threw (NoSuchMutationError name))"
  using assms by (simp add: commit_def get_prop_def)

lemma action_unregistered:
  assumes "map_of (actions this) name = None" and "name \<notin> set object_prototype_names"
  shows "action rt this name value = (this, Threw (NoSuchActionError name))"
  using assms by (simp add: action_def get_prop_def)

section \<open>The claims\<close>

text \<open>
  C1, as the code has it. When \<open>name\<close> is registered in the mutations of the store,
  with the function \<open>f\<close>,
  \<^verbatim>\<open>handle.commit(name, value)\<close> calls the mutation on the data of the root and on
  \<open>value\<close>, at once, and the data are afterwards as the mutation left them, however
  \<open>commit\<close> ends. \<open>commit\<close> returns what the mutation returned when the mutation
  returns and no key of the data is then a reserved word. Otherwise it throws: the error of
  the mutation when the mutation throws, and \<^verbatim>\<open>DontTouchMyReservedwords\<close> with the
  first reserved key when the mutation returns and leaves one. The store built from
  \<^verbatim>\<open>{data: {a: 1}, mutations: {set: (s, v) => { s.a = v; }}}\<close> reads 5 at \<open>a\<close> after
  \<^verbatim>\<open>handle.commit('set', 5)\<close>.
\<close>

theorem commit_returns_mutation_result:
  assumes "map_of (mutations this) name = Some (Fun f)"
  shows "handle_commit rt this name value =
      (this\<lparr>data := fst (f (data this) value)\<rparr>,
       case snd (f (data this) value) of
         Inl e \<Rightarrow> Threw e
       | Inr ret \<Rightarrow>
           (case find (\<lambda>key. key \<in> set RESERVEDWORDS) (map fst (fst (f (data this) value))) of
              Some key \<Rightarrow> Threw (DontTouchMyReservedwords key)
            | None \<Rightarrow> Returned ret))
    \<and> Store no_calls (Some roundtrip_seed) = Inr roundtrip_store
    \<and> proxy_get (fst (handle_commit plain_runtime roundtrip_store ''set'' (Num 5))) ''a''
        = Inr (Got (Num 5))"
proof -
  have general: "handle_commit rt this name value =
      (this\<lparr>data := fst (f (data this) value)\<rparr>,
       case snd (f (data this) value) of
         Inl e \<Rightarrow> Threw e
       | Inr ret \<Rightarrow>
           (case find (\<lambda>key. key \<in> set RESERVEDWORDS) (map fst (fst (f (data this) value))) of
              Some key \<Rightarrow> Threw (DontTouchMyReservedwords key)
            | None \<Rightarrow> Returned ret))"
    using assms
    by (simp add: handle_commit_is_commit commit_registered scan_def
        split: prod.splits sum.splits option.splits)
  have "commit plain_runtime roundtrip_store ''set'' (Num 5) =
      (roundtrip_store\<lparr>data := [(''a'', Num 5)]\<rparr>, Returned Undefined)"
    by (simp add: commit_def scan_def get_prop_def roundtrip_store_def setter_def
        RESERVEDWORDS_def)
  then have example:
    "proxy_get (fst (handle_commit plain_runtime roundtrip_store ''set'' (Num 5))) ''a''
      = Inr (Got (Num 5))"
    by (simp add: handle_commit_is_commit proxy_get_def handler_get_def get_prop_def
        target_keys_def)
  from general Store_roundtrip_seed example show ?thesis by simp
qed

theorem commit_returns_mutation_result_witness:
  "map_of (mutations roundtrip_store) ''set'' = Some (Fun (setter ''a''))
   \<and> handle_commit plain_runtime roundtrip_store ''set'' (Str ''x'') =
       (roundtrip_store\<lparr>data := [(''a'', Str ''x'')]\<rparr>, Returned Undefined)
   \<and> map_of (mutations thrower_store) ''smuggle'' = Some (Fun smuggle_then_throw)
   \<and> handle_commit plain_runtime thrower_store ''smuggle'' (Num 3) =
       (thrower_store\<lparr>data := [(''a'', Num 1), (''data'', Num 3)]\<rparr>, Threw (Thrown ''boom''))"
proof -
  have h1: "map_of (mutations roundtrip_store) ''set'' = Some (Fun (setter ''a''))"
    by (simp add: roundtrip_store_def)
  have h2: "map_of (mutations thrower_store) ''smuggle'' = Some (Fun smuggle_then_throw)"
    by (simp add: thrower_store_def)
  have a: "handle_commit plain_runtime roundtrip_store ''set'' (Str ''x'') =
       (roundtrip_store\<lparr>data := [(''a'', Str ''x'')]\<rparr>, Returned Undefined)"
    using commit_returns_mutation_result [OF h1, of plain_runtime "Str ''x''", THEN conjunct1]
    by (simp add: setter_def roundtrip_store_def RESERVEDWORDS_def)
  have b: "handle_commit plain_runtime thrower_store ''smuggle'' (Num 3) =
       (thrower_store\<lparr>data := [(''a'', Num 1), (''data'', Num 3)]\<rparr>, Threw (Thrown ''boom''))"
    using commit_returns_mutation_result [OF h2, of plain_runtime "Num 3", THEN conjunct1]
    by (simp add: smuggle_then_throw_def thrower_store_def)
  from h1 h2 a b show ?thesis by simp
qed

text \<open>
  C1 as it is written fails: the mutation \<open>smuggle\<close> is registered, it runs and returns
  \<^verbatim>\<open>undefined\<close>, and \<open>commit\<close> does not return that value but throws.
\<close>

theorem commit_returns_mutation_result_counterexample:
  "Store no_calls (Some smuggle_seed) = Inr smuggle_store
   \<and> map_of (mutations smuggle_store) ''smuggle'' = Some (Fun (setter ''data''))
   \<and> snd (setter ''data'' (data smuggle_store) (Num 7)) = Inr Undefined
   \<and> snd (handle_commit plain_runtime smuggle_store ''smuggle'' (Num 7)) =
       Threw (DontTouchMyReservedwords ''data'')"
  by (simp add: Store_smuggle_seed handle_commit_is_commit commit_def scan_def get_prop_def
      smuggle_store_def setter_def RESERVEDWORDS_def)

text \<open>
  C2 at \<^verbatim>\<open>new Store({data: {mutations: 5}}).mutations\<close>. The \<^verbatim>\<open>get\<close> trap returns
  5, the truthy value of the data at that key, and the read throws a \<^verbatim>\<open>TypeError\<close>:
  \<open>mutations\<close> is a frozen own property of the proxy's target and the trap did not return
  its value.
\<close>

theorem read_of_data_key_mutations:
  "Store no_calls (Some shadow_seed) = Inr shadow_store
   \<and> handler_get shadow_store ''mutations'' = Inr (Got (Num 5))
   \<and> proxy_get shadow_store ''mutations'' = Inl TypeError"
  by (simp add: Store_shadow_seed proxy_get_def handler_get_def get_prop_def target_keys_def
      shadow_store_def)

text \<open>
  C3 at \<^verbatim>\<open>handle.data = 5\<close> on the store of \<^verbatim>\<open>{data: {a: 1}}\<close>. The \<^verbatim>\<open>set\<close>
  trap returns true and the assignment throws a \<^verbatim>\<open>TypeError\<close>: \<open>data\<close> is a frozen
  own property of the proxy's target and 5 is not its value. The data stay as they were.
\<close>

theorem write_of_data_throws:
  "Store no_calls (Some data_only_seed) = Inr data_only_store
   \<and> handler_set data_only_store ''data'' (Num 5) = True
   \<and> proxy_set data_only_store ''data'' (Num 5) = (data_only_store, Inl TypeError)"
  by (simp add: Store_data_only_seed proxy_set_def handler_set_def target_keys_def)

text \<open>
  C4, as the code has it. When \<open>name\<close> is registered and its mutation has run and
  returned, \<open>commit\<close> scans the keys of the data as the mutation left them. If one of
  them is a reserved word, \<open>commit\<close> throws \<^verbatim>\<open>DontTouchMyReservedwords\<close> with such
  a key, the first that the scan meets; if none is, it returns the mutation's value. So a
  \<open>commit\<close> that returns leaves no reserved word among the keys of the data. When the
  mutation throws, \<open>commit\<close> throws the error of the mutation and scans nothing.
\<close>

theorem commit_rescans_reserved_words:
  assumes "map_of (mutations this) name = Some (Fun f)"
  shows "(\<forall>d ret. f (data this) value = (d, Inr ret) \<longrightarrow>
           (if \<exists>k \<in> set (map fst d). k \<in> set RESERVEDWORDS
            then \<exists>key \<in> set (map fst d). key \<in> set RESERVEDWORDS
                   \<and> find (\<lambda>k. k \<in> set RESERVEDWORDS) (map fst d) = Some key
                   \<and> handle_commit rt this name value =
                       (this\<lparr>data := d\<rparr>, Threw (DontTouchMyReservedwords key))
            else handle_commit rt this name value = (this\<lparr>data := d\<rparr>, Returned ret)))
    \<and> (\<forall>d e. f (data this) value = (d, Inl e) \<longrightarrow>
           handle_commit rt this name value = (this\<lparr>data := d\<rparr>, Threw e))
    \<and> (\<forall>this' r. handle_commit rt this name value = (this', Returned r) \<longrightarrow>
           (\<forall>k \<in> set (map fst (data this')). k \<notin> set RESERVEDWORDS))"
proof -
  have returns: "if \<exists>k \<in> set (map fst d). k \<in> set RESERVEDWORDS
            then \<exists>key \<in> set (map fst d). key \<in> set RESERVEDWORDS
                   \<and> find (\<lambda>k. k \<in> set RESERVEDWORDS) (map fst d) = Some key
                   \<and> handle_commit rt this name value =
                       (this\<lparr>data := d\<rparr>, Threw (DontTouchMyReservedwords key))
            else handle_commit rt this name value = (this\<lparr>data := d\<rparr>, Returned ret)"
    if r: "f (data this) value = (d, Inr ret)" for d ret
  proof (cases "find (\<lambda>k. k \<in> set RESERVEDWORDS) (map fst d)")
    case None
    then have "\<not> (\<exists>k \<in> set (map fst d). k \<in> set RESERVEDWORDS)"
      by (simp add: find_None_iff)
    with None assms r show ?thesis
      by (simp add: handle_commit_is_commit commit_registered_returns)
  next
    case (Some key)
    then have "key \<in> set (map fst d)" and "key \<in> set RESERVEDWORDS"
      by (auto simp: find_Some_iff)
    with Some assms r show ?thesis
      by (auto simp: handle_commit_is_commit commit_registered_returns)
  qed
  have throws: "handle_commit rt this name value = (this\<lparr>data := d\<rparr>, Threw e)"
    if "f (data this) value = (d, Inl e)" for d e
    using assms that by (simp add: handle_commit_is_commit commit_registered_throws)
  have clean: "\<forall>k \<in> set (map fst (data this')). k \<notin> set RESERVEDWORDS"
    if c: "handle_commit rt this name value = (this', Returned r)" for this' r
  proof (cases "f (data this) value")
    case (Pair d res)
    show ?thesis
    proof (cases res)
      case (Inl e)
      with Pair assms c show ?thesis
        by (simp add: handle_commit_is_commit commit_registered_throws)
    next
      case (Inr ret)
      with Pair assms c
      have "find (\<lambda>k. k \<in> set RESERVEDWORDS) (map fst d) = None" and "this' = this\<lparr>data := d\<rparr>"
        by (auto simp: handle_commit_is_commit commit_registered_returns split: option.splits)
      then show ?thesis
        by (auto simp: find_None_iff)
    qed
  qed
  from returns throws clean show ?thesis by blast
qed

theorem commit_rescans_reserved_words_witness:
  "map_of (mutations smuggle_store) ''smuggle'' = Some (Fun (setter ''data''))
   \<and> setter ''data'' (data smuggle_store) (Num 7) =
       ([(''a'', Num 1), (''data'', Num 7)], Inr Undefined)
   \<and> handle_commit plain_runtime smuggle_store ''smuggle'' (Num 7) =
       (smuggle_store\<lparr>data := [(''a'', Num 1), (''data'', Num 7)]\<rparr>,
        Threw (DontTouchMyReservedwords ''data''))
   \<and> map_of (mutations thrower_store) ''smuggle'' = Some (Fun smuggle_then_throw)
   \<and> smuggle_then_throw (data thrower_store) (Num 7) =
       ([(''a'', Num 1), (''data'', Num 7)], Inl (Thrown ''boom''))
   \<and> handle_commit plain_runtime thrower_store ''smuggle'' (Num 7) =
       (thrower_store\<lparr>data := [(''a'', Num 1), (''data'', Num 7)]\<rparr>, Threw (Thrown ''boom''))
   \<and> map_of (mutations roundtrip_store) ''set'' = Some (Fun (setter ''a''))
   \<and> setter ''a'' (data roundtrip_store) (Num 7) = ([(''a'', Num 7)], Inr Undefined)
   \<and> handle_commit plain_runtime roundtrip_store ''set'' (Num 7) =
       (roundtrip_store\<lparr>data := [(''a'', Num 7)]\<rparr>, Returned Undefined)"
proof -
  have h1: "map_of (mutations smuggle_store) ''smuggle'' = Some (Fun (setter ''data''))"
    by (simp add: smuggle_store_def)
  have r1: "setter ''data'' (data smuggle_store) (Num 7) =
       ([(''a'', Num 1), (''data'', Num 7)], Inr Undefined)"
    by (simp add: smuggle_store_def setter_def)
  have a: "handle_commit plain_runtime smuggle_store ''smuggle'' (Num 7) =
       (smuggle_store\<lparr>data := [(''a'', Num 1), (''data'', Num 7)]\<rparr>,
        Threw (DontTouchMyReservedwords ''data''))"
    using commit_rescans_reserved_words [OF h1, of "Num 7" plain_runtime, THEN conjunct1,
        THEN spec, THEN spec, THEN mp, OF r1]
    by (simp add: RESERVEDWORDS_def)
  have h2: "map_of (mutations thrower_store) ''smuggle'' = Some (Fun smuggle_then_throw)"
    by (simp add: thrower_store_def)
  have r2: "smuggle_then_throw (data thrower_store) (Num 7) =
       ([(''a'', Num 1), (''data'', Num 7)], Inl (Thrown ''boom''))"
    by (simp add: thrower_store_def smuggle_then_throw_def)
  note b = commit_rescans_reserved_words [OF h2, of "Num 7" plain_runtime, THEN conjunct2,
        THEN conjunct1, THEN spec, THEN spec, THEN mp, OF r2]
  have h3: "map_of (mutations roundtrip_store) ''set'' = Some (Fun (setter ''a''))"
    by (simp add: roundtrip_store_def)
  have r3: "setter ''a'' (data roundtrip_store) (Num 7) = ([(''a'', Num 7)], Inr Undefined)"
    by (simp add: roundtrip_store_def setter_def)
  have c: "handle_commit plain_runtime roundtrip_store ''set'' (Num 7) =
       (roundtrip_store\<lparr>data := [(''a'', Num 7)]\<rparr>, Returned Undefined)"
    using commit_rescans_reserved_words [OF h3, of "Num 7" plain_runtime, THEN conjunct1,
        THEN spec, THEN spec, THEN mp, OF r3]
    by (simp add: RESERVEDWORDS_def)
  from h1 r1 a h2 r2 b h3 r3 c show ?thesis by simp
qed

text \<open>
  C4 as it is written fails: the mutation of
  \<^verbatim>\<open>{smuggle: (s, v) => { s.data = v; throw new Error('boom'); }}\<close> runs, the reserved
  word \<open>data\<close> is then a key of the data, and \<open>commit\<close> fails with the error of the
  mutation, not with \<^verbatim>\<open>DontTouchMyReservedwords\<close>.
\<close>

theorem commit_rescans_reserved_words_counterexample:
  "Store no_calls (Some thrower_seed) = Inr thrower_store
   \<and> map_of (mutations thrower_store) ''smuggle'' = Some (Fun smuggle_then_throw)
   \<and> ''data'' \<in> set RESERVEDWORDS
   \<and> ''data'' \<in> set (map fst (data (fst (handle_commit plain_runtime thrower_store ''smuggle'' (Num 7)))))
   \<and> snd (handle_commit plain_runtime thrower_store ''smuggle'' (Num 7)) = Threw (Thrown ''boom'')
   \<and> snd (handle_commit plain_runtime thrower_store ''smuggle'' (Num 7))
        \<noteq> Threw (DontTouchMyReservedwords ''data'')"
  by (simp add: Store_thrower_seed handle_commit_is_commit commit_def get_prop_def
      thrower_store_def smuggle_then_throw_def RESERVEDWORDS_def)

text \<open>
  C5. When \<open>name\<close> is registered in the actions of the store,
  \<^verbatim>\<open>handle.action(name, value)\<close> runs the action on \<open>value\<close> with the \<open>commit\<close>
  of this store: a call of that \<open>commit\<close> by the action is \<open>commit\<close> on the root of
  this store, and what the action returns is returned as it is, a promise included, with
  nothing awaited. In the asynchronous scenario the call of \<open>go\<close> returns a promise and
  leaves the store as it was; once the promise is awaited, the read of \<open>x\<close> gives
  \<^verbatim>\<open>'tigerbalm'\<close>. The promise is run with no other call on the store in between.
\<close>

theorem action_runs_with_bound_commit:
  assumes "map_of (actions this) name = Some (Fun a)"
  shows "handle_action rt this name value = run rt (a value) this
    \<and> (\<forall>r. a value = Done r \<longrightarrow> handle_action rt this name value = (this, Returned r))
    \<and> (\<forall>n v k. a value = Call n v k \<longrightarrow>
          handle_action rt this name value =
            (case commit rt this n v of (this', out) \<Rightarrow> run rt (k out) this'))
    \<and> Store calls (Some async_seed) = Inr async_store
    \<and> (case handle_action rt async_store ''go'' (Str ''tigerbalm'') of
         (s, Returned r) \<Rightarrow>
           s = async_store
           \<and> (case await rt r s of
                (s', out) \<Rightarrow> out = Returned Undefined
                  \<and> proxy_get s' ''x'' = Inr (Got (Str ''tigerbalm'')))
       | (s, Threw e) \<Rightarrow> False)"
proof -
  have g: "handle_action rt this name value = run rt (a value) this"
    using assms by (simp add: handle_action_is_action action_registered)
  from g Store_async_seed async_scenario [of rt] show ?thesis
    by simp
qed

theorem action_runs_with_bound_commit_witness:
  "map_of (actions async_store) ''go'' = Some (Fun go)
   \<and> handle_action plain_runtime async_store ''go'' (Num 3) =
       (async_store,
        Returned (Promise (Call ''setX'' (Num 3)
           (\<lambda>out. case out of Threw e \<Rightarrow> Raise e | Returned r \<Rightarrow> Done Undefined))))
   \<and> map_of (actions sync_store) ''goNow'' = Some (Fun go_now)
   \<and> handle_action plain_runtime sync_store ''goNow'' (Num 3) =
       (sync_store\<lparr>data := [(''x'', Num 3)]\<rparr>, Returned (Value Undefined))"
proof -
  have h: "map_of (actions async_store) ''go'' = Some (Fun go)"
    by (simp add: async_store_def)
  have a: "handle_action plain_runtime async_store ''go'' (Num 3) =
       (async_store,
        Returned (Promise (Call ''setX'' (Num 3)
           (\<lambda>out. case out of Threw e \<Rightarrow> Raise e | Returned r \<Rightarrow> Done Undefined))))"
    using action_runs_with_bound_commit [OF h, of plain_runtime "Num 3", THEN conjunct1]
    by (simp add: go_def)
  have h': "map_of (actions sync_store) ''goNow'' = Some (Fun go_now)"
    by (simp add: sync_store_def)
  have body: "go_now (Num 3) = Call ''setX'' (Num 3)
           (\<lambda>out. case out of Threw e \<Rightarrow> Raise e | Returned r \<Rightarrow> Done (Value Undefined))"
    by (simp add: go_now_def)
  have c: "commit plain_runtime sync_store ''setX'' (Num 3) =
      (sync_store\<lparr>data := [(''x'', Num 3)]\<rparr>, Returned Undefined)"
    by (simp add: commit_def scan_def get_prop_def sync_store_def setter_def RESERVEDWORDS_def)
  have b: "handle_action plain_runtime sync_store ''goNow'' (Num 3) =
       (sync_store\<lparr>data := [(''x'', Num 3)]\<rparr>, Returned (Value Undefined))"
    using action_runs_with_bound_commit [OF h', of plain_runtime "Num 3", THEN conjunct2,
        THEN conjunct2, THEN conjunct1, THEN spec, THEN spec, THEN spec, THEN mp, OF body]
    by (simp add: c)
  from h a h' b show ?thesis by simp
qed

text \<open>
  C6 at \<^verbatim>\<open>handle.commit('toString')\<close> and \<^verbatim>\<open>handle.action('toString')\<close> on the
  store of \<^verbatim>\<open>{data: {a: 1}}\<close>, which registers no mutation and no action. The lookups
  \<^verbatim>\<open>this.mutations['toString']\<close> and \<^verbatim>\<open>this.actions['toString']\<close> find the function
  inherited from \<^verbatim>\<open>Object.prototype\<close>, which is truthy, and call it: the dispatchers
  end as that function ends, whatever the runtime, and with
  \<^verbatim>\<open>Object.prototype.toString\<close> they return \<^verbatim>\<open>'[object Object]'\<close>. Neither
  \<^verbatim>\<open>NoSuchMutationError\<close> nor \<^verbatim>\<open>NoSuchActionError\<close> is thrown.
\<close>

theorem dispatch_of_inherited_name:
  "Store no_calls (Some data_only_seed) = Inr data_only_store
   \<and> map_of (mutations data_only_store) ''toString'' = None
   \<and> map_of (actions data_only_store) ''toString'' = None
   \<and> handle_commit rt data_only_store ''toString'' Undefined =
       (case native_mutation rt ''toString'' data_only_store Undefined of
          (this', Inl e) \<Rightarrow> (this', Threw e)
        | (this', Inr ret) \<Rightarrow> scan this' ret)
   \<and> handle_action rt data_only_store ''toString'' Undefined =
       (case native_action rt ''toString'' data_only_store Undefined of
          (this', Inl e) \<Rightarrow> (this', Threw e)
        | (this', Inr r) \<Rightarrow> (this', Returned r))
   \<and> handle_commit plain_runtime data_only_store ''toString'' Undefined =
       (data_only_store, Returned (Str ''[object Object]''))
   \<and> handle_action plain_runtime data_only_store ''toString'' Undefined =
       (data_only_store, Returned (Value (Str ''[object Object]'')))"
  by (simp add: Store_data_only_seed handle_commit_is_commit handle_action_is_action
      commit_def action_def scan_def get_prop_def object_prototype_names_def
      data_only_store_def plain_runtime_def RESERVEDWORDS_def)

text \<open>
  C7 at \<^verbatim>\<open>handle.actions\<close> on the store of \<^verbatim>\<open>{data: {a: 1}}\<close>. The read of
  \<open>data\<close> throws \<^verbatim>\<open>NoDirectAccessForYou\<close>, and it is not the only read that throws:
  the \<^verbatim>\<open>get\<close> trap returns nothing for \<open>actions\<close>, a frozen own property of the
  proxy's target, and the read throws a \<^verbatim>\<open>TypeError\<close>.
\<close>

theorem read_of_actions_throws:
  "Store no_calls (Some data_only_seed) = Inr data_only_store
   \<and> proxy_get data_only_store ''data'' = Inl NoDirectAccessForYou
   \<and> handler_get data_only_store ''actions'' = Inr (Got Undefined)
   \<and> proxy_get data_only_store ''actions'' = Inl TypeError"
  by (simp add: Store_data_only_seed proxy_get_def handler_get_def get_prop_def target_keys_def
      object_prototype_names_def data_only_store_def)

text \<open>
  C8, as the code has it. When a reserved word \<open>w\<close> is a key of the normalized data,
  mutations or actions of the seed, \<open>Store\<close> fails and returns no handle. The error is
  \<^verbatim>\<open>DontTouchMyReservedwords: w\<close> when \<open>w\<close> is the first reserved word among the
  keys of its group and the groups before it, in the order data, mutations, actions, were
  normalized without an error.
\<close>

theorem reserved_word_fails_construction:
  assumes "w \<in> set RESERVEDWORDS"
    and "w \<in> set (normalized_keys (call_data calls) (seed_data s))
       \<or> w \<in> set (normalized_keys (call_mutations calls) (seed_mutations s))
       \<or> w \<in> set (normalized_keys (call_actions calls) (seed_actions s))"
  shows "(\<exists>e. Store calls (Some s) = Inl e)
    \<and> (find (\<lambda>key. key \<in> set RESERVEDWORDS) (normalized_keys (call_data calls) (seed_data s))
          = Some w
         \<longrightarrow> Store calls (Some s) = Inl (DontTouchMyReservedwords w))
    \<and> (\<forall>d. setProp (call_data calls) (seed_data s) ''data'' = Inr d
         \<and> find (\<lambda>key. key \<in> set RESERVEDWORDS)
             (normalized_keys (call_mutations calls) (seed_mutations s)) = Some w
         \<longrightarrow> Store calls (Some s) = Inl (DontTouchMyReservedwords w))
    \<and> (\<forall>d m. setProp (call_data calls) (seed_data s) ''data'' = Inr d
         \<and> setProp (call_mutations calls) (seed_mutations s) ''mutations'' = Inr m
         \<and> find (\<lambda>key. key \<in> set RESERVEDWORDS)
             (normalized_keys (call_actions calls) (seed_actions s)) = Some w
         \<longrightarrow> Store calls (Some s) = Inl (DontTouchMyReservedwords w))"
proof -
  have fails: "\<exists>e. Store calls (Some s) = Inl e"
  proof -
    from assms(2) consider
        (d) "w \<in> set (normalized_keys (call_data calls) (seed_data s))"
      | (m) "w \<in> set (normalized_keys (call_mutations calls) (seed_mutations s))"
      | (a) "w \<in> set (normalized_keys (call_actions calls) (seed_actions s))"
      by blast
    then show ?thesis
    proof cases
      case d
      from reserved_found [OF assms(1) d] obtain key where
        "find (\<lambda>key. key \<in> set RESERVEDWORDS)
           (normalized_keys (call_data calls) (seed_data s)) = Some key"
        by blast
      then have "setProp (call_data calls) (seed_data s) ''data''
          = Inl (DontTouchMyReservedwords key)"
        by (rule setProp_reserved)
      then show ?thesis by (blast intro: Store_fails_any)
    next
      case m
      from reserved_found [OF assms(1) m] obtain key where
        "find (\<lambda>key. key \<in> set RESERVEDWORDS)
           (normalized_keys (call_mutations calls) (seed_mutations s)) = Some key"
        by blast
      then have "setProp (call_mutations calls) (seed_mutations s) ''mutations''
          = Inl (DontTouchMyReservedwords key)"
        by (rule setProp_reserved)
      then show ?thesis by (blast intro: Store_fails_any)
    next
      case a
      from reserved_found [OF assms(1) a] obtain key where
        "find (\<lambda>key. key \<in> set RESERVEDWORDS)
           (normalized_keys (call_actions calls) (seed_actions s)) = Some key"
        by blast
      then have "setProp (call_actions calls) (seed_actions s) ''actions''
          = Inl (DontTouchMyReservedwords key)"
        by (rule setProp_reserved)
      then show ?thesis by (blast intro: Store_fails_any)
    qed
  qed
  have first: "find (\<lambda>key. key \<in> set RESERVEDWORDS)
        (normalized_keys (call_data calls) (seed_data s)) = Some w
         \<longrightarrow> Store calls (Some s) = Inl (DontTouchMyReservedwords w)"
    by (auto dest: setProp_reserved [where desc = "''data''"] intro: Store_fails_data)
  have second: "\<forall>d. setProp (call_data calls) (seed_data s) ''data'' = Inr d
         \<and> find (\<lambda>key. key \<in> set RESERVEDWORDS)
             (normalized_keys (call_mutations calls) (seed_mutations s)) = Some w
         \<longrightarrow> Store calls (Some s) = Inl (DontTouchMyReservedwords w)"
    by (auto dest: setProp_reserved [where desc = "''mutations''"] intro: Store_fails_mutations)
  have third: "\<forall>d m. setProp (call_data calls) (seed_data s) ''data'' = Inr d
         \<and> setProp (call_mutations calls) (seed_mutations s) ''mutations'' = Inr m
         \<and> find (\<lambda>key. key \<in> set RESERVEDWORDS)
             (normalized_keys (call_actions calls) (seed_actions s)) = Some w
         \<longrightarrow> Store calls (Some s) = Inl (DontTouchMyReservedwords w)"
    by (auto dest: setProp_reserved [where desc = "''actions''"] intro: Store_fails_actions)
  from fails first second third show ?thesis by blast
qed

theorem reserved_word_fails_construction_witness:
  "Store no_calls (Some two_reserved_seed) = Inl (DontTouchMyReservedwords ''commit'')
   \<and> Store no_calls (Some reserved_mutation_seed) = Inl (DontTouchMyReservedwords ''commit'')
   \<and> Store no_calls (Some reserved_action_seed) = Inl (DontTouchMyReservedwords ''action'')"
proof -
  have c: "''commit'' \<in> set RESERVEDWORDS" and a: "''action'' \<in> set RESERVEDWORDS"
    by (simp_all add: RESERVEDWORDS_def)
  have k1: "normalized_keys (call_data no_calls) (seed_data two_reserved_seed)
      = [''commit'', ''data'']"
    by (simp add: normalized_keys_def candidate_def two_reserved_seed_def)
  have k2: "normalized_keys (call_mutations no_calls) (seed_mutations reserved_mutation_seed)
      = [''commit'']"
    by (simp add: normalized_keys_def candidate_def reserved_mutation_seed_def)
  have k3: "normalized_keys (call_actions no_calls) (seed_actions reserved_action_seed)
      = [''action'']"
    by (simp add: normalized_keys_def candidate_def reserved_action_seed_def)
  have d2: "setProp (call_data no_calls) (seed_data reserved_mutation_seed) ''data''
      = Inr [(''a'', Num 1)]"
    by (simp add: setProp_def candidate_def validate_def accepts_all_def RESERVEDWORDS_def
        reserved_mutation_seed_def)
  have d3: "setProp (call_data no_calls) (seed_data reserved_action_seed) ''data''
      = Inr [(''a'', Num 1)]"
    by (simp add: setProp_def candidate_def validate_def accepts_all_def RESERVEDWORDS_def
        reserved_action_seed_def)
  have m3: "setProp (call_mutations no_calls) (seed_mutations reserved_action_seed) ''mutations''
      = Inr []"
    by (simp add: setProp_def candidate_def validate_def accepts_all_def RESERVEDWORDS_def
        reserved_action_seed_def)
  have f1: "find (\<lambda>key. key \<in> set RESERVEDWORDS)
      (normalized_keys (call_data no_calls) (seed_data two_reserved_seed)) = Some ''commit''"
    by (simp add: k1 RESERVEDWORDS_def)
  have f2: "find (\<lambda>key. key \<in> set RESERVEDWORDS)
      (normalized_keys (call_mutations no_calls) (seed_mutations reserved_mutation_seed))
      = Some ''commit''"
    by (simp add: k2 RESERVEDWORDS_def)
  have f3: "find (\<lambda>key. key \<in> set RESERVEDWORDS)
      (normalized_keys (call_actions no_calls) (seed_actions reserved_action_seed))
      = Some ''action''"
    by (simp add: k3 RESERVEDWORDS_def)
  have "Store no_calls (Some two_reserved_seed) = Inl (DontTouchMyReservedwords ''commit'')"
    using reserved_word_fails_construction [of "''commit''" no_calls two_reserved_seed] c k1 f1
    by simp
  moreover have "Store no_calls (Some reserved_mutation_seed)
      = Inl (DontTouchMyReservedwords ''commit'')"
    using reserved_word_fails_construction [of "''commit''" no_calls reserved_mutation_seed]
      c k2 d2 f2
    by simp
  moreover have "Store no_calls (Some reserved_action_seed)
      = Inl (DontTouchMyReservedwords ''action'')"
    using reserved_word_fails_construction [of "''action''" no_calls reserved_action_seed]
      a k3 d3 m3 f3
    by simp
  ultimately show ?thesis by simp
qed

text \<open>
  C8 as it is written fails: \<open>data\<close> is a reserved word and a key of the normalized data
  of \<^verbatim>\<open>{data: {commit: 1, data: 2}}\<close>, and the error names \<open>commit\<close>, the key the
  scan meets first.
\<close>

theorem reserved_word_fails_construction_counterexample:
  "''data'' \<in> set RESERVEDWORDS
   \<and> ''data'' \<in> set (normalized_keys (call_data no_calls) (seed_data two_reserved_seed))
   \<and> Store no_calls (Some two_reserved_seed) = Inl (DontTouchMyReservedwords ''commit'')
   \<and> Store no_calls (Some two_reserved_seed) \<noteq> Inl (DontTouchMyReservedwords ''data'')"
  by (simp add: Store_def setProp_def candidate_def validate_def accepts_all_def
      normalized_keys_def RESERVEDWORDS_def two_reserved_seed_def)




text \<open>
  C10, as the code has it. \<open>commit\<close> undoes nothing. When the mutation of \<open>name\<close>
  returns and leaves the reserved word \<open>key\<close> among the keys of the data, \<open>commit\<close>
  throws \<^verbatim>\<open>DontTouchMyReservedwords\<close>; when the mutation throws, \<open>commit\<close> throws
  the error of the mutation. In both cases the data of the store are what the mutation made
  them, a reserved key included, and the reads of the handle and the mutations of later
  commits work on these data.
\<close>

theorem commit_keeps_changes_after_throw:
  assumes "map_of (mutations this) name = Some (Fun f)"
  shows "(\<forall>d ret key. f (data this) value = (d, Inr ret)
            \<and> find (\<lambda>k. k \<in> set RESERVEDWORDS) (map fst d) = Some key \<longrightarrow>
           handle_commit rt this name value =
             (this\<lparr>data := d\<rparr>, Threw (DontTouchMyReservedwords key))
           \<and> key \<in> set (map fst (data (fst (handle_commit rt this name value)))))
    \<and> (\<forall>d e. f (data this) value = (d, Inl e) \<longrightarrow>
           handle_commit rt this name value = (this\<lparr>data := d\<rparr>, Threw e))
    \<and> data (fst (handle_commit rt this name value)) = fst (f (data this) value)
    \<and> (\<forall>k. k \<notin> set [''commit'', ''action'', ''data'', ''mutations'', ''actions''] \<longrightarrow>
           proxy_get (fst (handle_commit rt this name value)) k =
             Inr (Got (if truthy (get_prop (fst (f (data this) value)) k)
                       then get_prop (fst (f (data this) value)) k else Undefined)))
    \<and> (\<forall>name' g value'. map_of (mutations this) name' = Some (Fun g) \<longrightarrow>
           fst (handle_commit rt (fst (handle_commit rt this name value)) name' value') =
             this\<lparr>data := fst (g (fst (f (data this) value)) value')\<rparr>)"
proof -
  have after: "fst (commit rt this name value) = this\<lparr>data := fst (f (data this) value)\<rparr>"
    using assms by (rule fst_commit_registered)
  have scanned: "handle_commit rt this name value =
             (this\<lparr>data := d\<rparr>, Threw (DontTouchMyReservedwords key))
           \<and> key \<in> set (map fst (data (fst (handle_commit rt this name value))))"
    if "f (data this) value = (d, Inr ret)"
      and "find (\<lambda>k. k \<in> set RESERVEDWORDS) (map fst d) = Some key" for d ret key
  proof -
    from that(2) have "key \<in> set (map fst d)"
      by (auto simp: find_Some_iff)
    with assms that show ?thesis
      by (simp add: handle_commit_is_commit commit_registered_returns)
  qed
  have thrown: "handle_commit rt this name value = (this\<lparr>data := d\<rparr>, Threw e)"
    if "f (data this) value = (d, Inl e)" for d e
    using assms that by (simp add: handle_commit_is_commit commit_registered_throws)
  have kept: "data (fst (handle_commit rt this name value)) = fst (f (data this) value)"
    by (simp add: handle_commit_is_commit after)
  have reads: "\<forall>k. k \<notin> set [''commit'', ''action'', ''data'', ''mutations'', ''actions''] \<longrightarrow>
           proxy_get (fst (handle_commit rt this name value)) k =
             Inr (Got (if truthy (get_prop (fst (f (data this) value)) k)
                       then get_prop (fst (f (data this) value)) k else Undefined))"
    by (simp add: handle_commit_is_commit after proxy_get_def handler_get_def target_keys_def)
  have later: "\<forall>name' g value'. map_of (mutations this) name' = Some (Fun g) \<longrightarrow>
           fst (handle_commit rt (fst (handle_commit rt this name value)) name' value') =
             this\<lparr>data := fst (g (fst (f (data this) value)) value')\<rparr>"
    by (simp add: handle_commit_is_commit after fst_commit_registered)
  from scanned thrown kept reads later show ?thesis by blast
qed

theorem commit_keeps_changes_after_throw_witness:
  "map_of (mutations overwrite_store) ''both'' = Some (Fun overwrite_and_smuggle)
   \<and> overwrite_and_smuggle (data overwrite_store) (Num 9) =
       ([(''a'', Num 9), (''commit'', Num 9)], Inr Undefined)
   \<and> find (\<lambda>k. k \<in> set RESERVEDWORDS) (map fst [(''a'', Num 9), (''commit'', Num 9 :: unit val)])
       = Some ''commit''
   \<and> proxy_get overwrite_store ''a'' = Inr (Got (Num 1))
   \<and> handle_commit plain_runtime overwrite_store ''both'' (Num 9) =
       (overwrite_store\<lparr>data := [(''a'', Num 9), (''commit'', Num 9)]\<rparr>,
        Threw (DontTouchMyReservedwords ''commit''))
   \<and> proxy_get (fst (handle_commit plain_runtime overwrite_store ''both'' (Num 9))) ''a''
       = Inr (Got (Num 9))
   \<and> fst (handle_commit plain_runtime
            (fst (handle_commit plain_runtime overwrite_store ''both'' (Num 9))) ''both'' (Num 2))
       = overwrite_store\<lparr>data := [(''a'', Num 2), (''commit'', Num 2)]\<rparr>
   \<and> handle_commit plain_runtime thrower_store ''smuggle'' (Str ''w'') =
       (thrower_store\<lparr>data := [(''a'', Num 1), (''data'', Str ''w'')]\<rparr>, Threw (Thrown ''boom''))"
proof -
  have h1: "map_of (mutations overwrite_store) ''both'' = Some (Fun overwrite_and_smuggle)"
    by (simp add: overwrite_store_def)
  have h2: "overwrite_and_smuggle (data overwrite_store) (Num 9) =
       ([(''a'', Num 9), (''commit'', Num 9)], Inr Undefined)"
    by (simp add: overwrite_store_def overwrite_and_smuggle_def)
  have h3: "find (\<lambda>k. k \<in> set RESERVEDWORDS) (map fst [(''a'', Num 9), (''commit'', Num 9 :: unit val)])
       = Some ''commit''"
    by (simp add: RESERVEDWORDS_def)
  have before: "proxy_get overwrite_store ''a'' = Inr (Got (Num 1))"
    by (simp add: proxy_get_def handler_get_def target_keys_def get_prop_def overwrite_store_def)
  note t = commit_keeps_changes_after_throw [OF h1, of "Num 9" plain_runtime]
  have a: "handle_commit plain_runtime overwrite_store ''both'' (Num 9) =
       (overwrite_store\<lparr>data := [(''a'', Num 9), (''commit'', Num 9)]\<rparr>,
        Threw (DontTouchMyReservedwords ''commit''))"
    using t [THEN conjunct1, THEN spec, THEN spec, THEN spec, THEN mp, OF conjI, OF h2 h3]
    by simp
  have notin: "''a'' \<notin> set [''commit'', ''action'', ''data'', ''mutations'', ''actions'']"
    by simp
  have b: "proxy_get (fst (handle_commit plain_runtime overwrite_store ''both'' (Num 9))) ''a''
       = Inr (Got (Num 9))"
    using t [THEN conjunct2, THEN conjunct2, THEN conjunct2, THEN conjunct1, THEN spec,
        of "''a''", THEN mp, OF notin]
    by (simp add: overwrite_and_smuggle_def overwrite_store_def get_prop_def)
  have c: "fst (handle_commit plain_runtime
            (fst (handle_commit plain_runtime overwrite_store ''both'' (Num 9))) ''both'' (Num 2))
       = overwrite_store\<lparr>data := [(''a'', Num 2), (''commit'', Num 2)]\<rparr>"
    using t [THEN conjunct2, THEN conjunct2, THEN conjunct2, THEN conjunct2,
        THEN spec, THEN spec, THEN spec, THEN mp, OF h1, of "Num 2"]
    by (simp add: overwrite_and_smuggle_def overwrite_store_def)
  have h4: "map_of (mutations thrower_store) ''smuggle'' = Some (Fun smuggle_then_throw)"
    by (simp add: thrower_store_def)
  have r4: "smuggle_then_throw (data thrower_store) (Str ''w'') =
       ([(''a'', Num 1), (''data'', Str ''w'')], Inl (Thrown ''boom''))"
    by (simp add: thrower_store_def smuggle_then_throw_def)
  note d = commit_keeps_changes_after_throw [OF h4, of "Str ''w''" plain_runtime,
      THEN conjunct2, THEN conjunct1, THEN spec, THEN spec, THEN mp, OF r4]
  from h1 h2 h3 before a b c d show ?thesis by simp
qed

text \<open>
  C10 as it is written fails: the mutation of
  \<^verbatim>\<open>{smuggle: (s, v) => { s.data = v; throw new Error('boom'); }}\<close> leaves the reserved
  word \<open>data\<close> among the keys of the data, which persists, and \<open>commit\<close> throws the
  error of the mutation, not \<^verbatim>\<open>DontTouchMyReservedwords\<close>.
\<close>

theorem commit_keeps_changes_after_throw_counterexample:
  "Store no_calls (Some thrower_seed) = Inr thrower_store
   \<and> map_of (mutations thrower_store) ''smuggle'' = Some (Fun smuggle_then_throw)
   \<and> ''data'' \<in> set RESERVEDWORDS
   \<and> data (fst (handle_commit plain_runtime thrower_store ''smuggle'' (Str ''v'')))
       = [(''a'', Num 1), (''data'', Str ''v'')]
   \<and> snd (handle_commit plain_runtime thrower_store ''smuggle'' (Str ''v''))
       = Threw (Thrown ''boom'')
   \<and> snd (handle_commit plain_runtime thrower_store ''smuggle'' (Str ''v''))
       \<noteq> Threw (DontTouchMyReservedwords ''data'')"
  by (simp add: Store_thrower_seed handle_commit_is_commit commit_def get_prop_def
      thrower_store_def smuggle_then_throw_def RESERVEDWORDS_def)

end
